theory Spec2Isabelle
  imports
    Main
    "HOL-Library.Char_ord"
    "HOL-Library.List_Lexorder"
    "HOL-Library.Product_Lexorder"
    "HOL-Library.Multiset"
begin

section \<open>LectureLedger: the lesson store and its dialog (src/Lessons.py)\<close>

text \<open>
  The program keeps one SQLite table \<open>lessons\<close> and drives it from a Tk window.
  The store class \<open>LessonsDB\<close> is embedded as functions on an explicit table state,
  each SQL statement as the list operation it denotes; the dialog \<open>LessonDialog\<close>
  and the callbacks of \<open>App\<close> as functions on their fields.

  Conventions of the embedding.
  \<^item> A Python \<open>str\<close> is a \<open>string\<close>; a \<open>char\<close> stands for a code point below 256.
    SQLite compares TEXT with \<open>memcmp\<close> on UTF-8, which orders strings as the
    lexicographic order on code points does (the order of \<open>List_Lexorder\<close> over
    \<open>Char_ord\<close>).
    A TEXT value holds no NUL character: an entry of the window cannot deliver one.
  \<^item> An INTEGER column is an \<open>int\<close>.
  \<^item> \<open>str | None\<close> is a \<open>string option\<close>.
  \<^item> Storage faults of the database file are outside the model.
\<close>

subsection \<open>Text helpers: \<open>str.strip\<close> and the NOCASE collation\<close>

text \<open>
  \<open>str.strip()\<close> without argument removes leading and trailing whitespace, the
  characters for which \<open>str.isspace\<close> holds: below 256 these are the code points
  9 to 13, 28 to 32, 133 and 160.
\<close>

definition py_isspace :: "char \<Rightarrow> bool" where
  "py_isspace c \<longleftrightarrow>
     (let n = (of_char c :: nat)
      in (9 \<le> n \<and> n \<le> 13) \<or> (28 \<le> n \<and> n \<le> 32) \<or> n = 133 \<or> n = 160)"

definition strip :: "string \<Rightarrow> string" where
  "strip s = rev (dropWhile py_isspace (rev (dropWhile py_isspace s)))"

text \<open>
  \<open>COLLATE NOCASE\<close> folds the 26 upper case letters of ASCII to lower case and then
  compares as the binary collation does. \<open>nocase\<close> is the folded string, so that
  \<open>a\<close> sorts before \<open>b\<close> under NOCASE when \<open>nocase a < nocase b\<close>.
\<close>

definition lower_ascii :: "char \<Rightarrow> char" where
  "lower_ascii c =
     (let n = (of_char c :: nat) in if 65 \<le> n \<and> n \<le> 90 then char_of (n + 32) else c)"

definition nocase :: "string \<Rightarrow> string" where
  "nocase s = map lower_ascii s"

subsection \<open>The table\<close>

text \<open>
  \<^verbatim>\<open>
  CREATE TABLE IF NOT EXISTS lessons (
      id INTEGER PRIMARY KEY AUTOINCREMENT,
      title TEXT NOT NULL, course TEXT NOT NULL, day TEXT NOT NULL,
      done INTEGER NOT NULL DEFAULT 0,
      created_at TEXT NOT NULL DEFAULT CURRENT_TIMESTAMP)
  \<close>
  A \<open>row\<close> holds the five columns that \<open>query\<close> selects; a \<open>lesson\<close> is a stored row,
  with \<open>created_at\<close> in addition. The column \<open>id\<close> is the field \<open>lesson_id\<close>.

  The state of the store is the list of stored rows and the counter that
  AUTOINCREMENT keeps in \<open>sqlite_sequence\<close>: the largest id the table has ever held.
\<close>

record row =
  lesson_id :: int
  title :: string
  course :: string
  day :: string
  "done" :: int

record lesson = row +
  created_at :: string

record db =
  lessons :: "lesson list"
  seq :: int

definition init_schema :: db where
  "init_schema = \<lparr>lessons = [], seq = 0\<rparr>"

text \<open>The PRIMARY KEY constraint: no two stored rows share an id.\<close>

definition primary_key :: "db \<Rightarrow> bool" where
  "primary_key s \<longleftrightarrow> distinct (map lesson_id (lessons s))"

subsection \<open>LessonsDB: the mutating operations\<close>

text \<open>
  \<^verbatim>\<open>
  def add_lesson(self, title, course, day, done=0):
      cur.execute("INSERT INTO lessons(title, course, day, done) VALUES(?,?,?,?)",
                  (title.strip(), course.strip(), day.strip(), int(done)))
  \<close>
  The new id is one more than the largest id the table holds or has ever held.
  \<open>done_arg = None\<close> is the call that omits \<open>done\<close>; \<open>now\<close> is the value of
  CURRENT_TIMESTAMP at the insert.
\<close>

definition next_id :: "db \<Rightarrow> int" where
  "next_id s = fold max (map lesson_id (lessons s)) (seq s) + 1"

definition add_lesson :: "string \<Rightarrow> string \<Rightarrow> string \<Rightarrow> int option \<Rightarrow> string \<Rightarrow> db \<Rightarrow> db" where
  "add_lesson t c d done_arg now s =
     (let i = next_id s;
          r = \<lparr>lesson_id = i, title = strip t, course = strip c, day = strip d,
               done = (case done_arg of None \<Rightarrow> 0 | Some v \<Rightarrow> v),
               created_at = now\<rparr>
      in \<lparr>lessons = lessons s @ [r], seq = i\<rparr>)"

text \<open>
  \<^verbatim>\<open>
  def update_lesson(self, lesson_id, title, course, day, done):
      cur.execute("UPDATE lessons SET title=?, course=?, day=?, done=? WHERE id=?",
                  (title.strip(), course.strip(), day.strip(), int(done), int(lesson_id)))
  \<close>
\<close>

definition update_lesson :: "int \<Rightarrow> string \<Rightarrow> string \<Rightarrow> string \<Rightarrow> int \<Rightarrow> db \<Rightarrow> db" where
  "update_lesson i t c d dn s =
     s\<lparr>lessons :=
         map (\<lambda>r. if lesson_id r = i
                   then r\<lparr>title := strip t, course := strip c, day := strip d, done := dn\<rparr>
                   else r)
             (lessons s)\<rparr>"

text \<open>\<^verbatim>\<open>cur.execute("DELETE FROM lessons WHERE id=?", (int(lesson_id),))\<close>\<close>

definition delete_lesson :: "int \<Rightarrow> db \<Rightarrow> db" where
  "delete_lesson i s = s\<lparr>lessons := filter (\<lambda>r. lesson_id r \<noteq> i) (lessons s)\<rparr>"

text \<open>
  \<^verbatim>\<open>
  cur.execute("UPDATE lessons SET done = CASE done WHEN 0 THEN 1 ELSE 0 END WHERE id=?",
              (int(lesson_id),))
  \<close>
\<close>

definition case_done :: "int \<Rightarrow> int" where
  "case_done v = (if v = 0 then 1 else 0)"

definition toggle_done :: "int \<Rightarrow> db \<Rightarrow> db" where
  "toggle_done i s =
     s\<lparr>lessons :=
         map (\<lambda>r. if lesson_id r = i then r\<lparr>done := case_done (done r)\<rparr> else r) (lessons s)\<rparr>"

subsection \<open>LessonsDB: the reading operations\<close>


text \<open>
  \<^verbatim>\<open>
  def query(self, day, course, only_undone):
      sql = "SELECT id, title, course, day, done FROM lessons"
      where = []
      if day and day != "TUTTE":      where.append("day = ?")
      if course and course != "TUTTI": where.append("course = ?")
      if only_undone:                 where.append("done = 0")
      if where: sql += " WHERE " + " AND ".join(where)
      sql += " ORDER BY day ASC, course COLLATE NOCASE ASC, done ASC, id ASC"
  \<close>
  \<open>cond\<close> is one entry of the list \<open>where\<close> together with its bound parameter.
  \<open>None\<close> and the empty string are the falsy values of \<open>str | None\<close>.
\<close>

datatype cond = Day_eq string | Course_eq string | Done_zero

fun holds :: "cond \<Rightarrow> lesson \<Rightarrow> bool" where
  "holds (Day_eq d) r = (day r = d)"
| "holds (Course_eq c) r = (course r = c)"
| "holds Done_zero r = (done r = 0)"

fun day_clause :: "string option \<Rightarrow> cond list" where
  "day_clause None = []"
| "day_clause (Some d) = (if d \<noteq> [] \<and> d \<noteq> ''TUTTE'' then [Day_eq d] else [])"

fun course_clause :: "string option \<Rightarrow> cond list" where
  "course_clause None = []"
| "course_clause (Some c) = (if c \<noteq> [] \<and> c \<noteq> ''TUTTI'' then [Course_eq c] else [])"

definition query_where :: "string option \<Rightarrow> string option \<Rightarrow> bool \<Rightarrow> cond list" where
  "query_where d c only_undone =
     day_clause d @ course_clause c @ (if only_undone then [Done_zero] else [])"

definition order_key :: "'a row_scheme \<Rightarrow> string \<times> string \<times> int \<times> int" where
  "order_key r = (day r, nocase (course r), done r, lesson_id r)"

definition query :: "db \<Rightarrow> string option \<Rightarrow> string option \<Rightarrow> bool \<Rightarrow> row list" where
  "query s d c only_undone =
     map row.truncate
       (sort_key order_key
          (filter (\<lambda>r. list_all (\<lambda>w. holds w r) (query_where d c only_undone)) (lessons s)))"

subsection \<open>\<open>validate_iso_date\<close>\<close>

text \<open>
  \<^verbatim>\<open>
  def validate_iso_date(s):
      try:
          datetime.strptime(s.strip(), "%Y-%m-%d"); return True
      except Exception:
          return False
  \<close>
  \<open>datetime.strptime\<close> (the standard library's \<open>_strptime\<close>) turns the format into
  the regular expression
  \<^verbatim>\<open>(?P<Y>\d\d\d\d)-(?P<m>1[0-2]|0[1-9]|[1-9])-(?P<d>3[0-1]|[1-2]\d|0[1-9]|[1-9]| [1-9])\<close>
  matches it at the start of the text, raises ValueError when text remains after
  the match, and then builds the date, which raises ValueError when the year is 0
  or the day does not exist in the month.

  Each group is modelled by the list of its alternatives that match at the head
  of the text, in the order in which the regular expression tries them, each with
  the text that remains. The match is the first success of the backtracking search.
\<close>

definition is_digit :: "char \<Rightarrow> bool" where
  "is_digit c \<longleftrightarrow> (let n = (of_char c :: nat) in 48 \<le> n \<and> n \<le> 57)"

definition in_range :: "char \<Rightarrow> char \<Rightarrow> char \<Rightarrow> bool" where
  "in_range lo hi c \<longleftrightarrow> (of_char lo :: nat) \<le> of_char c \<and> (of_char c :: nat) \<le> of_char hi"

fun match_Y :: "string \<Rightarrow> (string \<times> string) list" where
  "match_Y (a # b # c # d # rest) =
     (if is_digit a \<and> is_digit b \<and> is_digit c \<and> is_digit d then [([a, b, c, d], rest)] else [])"
| "match_Y _ = []"

fun match_lit :: "char \<Rightarrow> string \<Rightarrow> string list" where
  "match_lit x (a # rest) = (if a = x then [rest] else [])"
| "match_lit x [] = []"

text \<open>Two characters, the first in \<open>[lo1-hi1]\<close> and the second in \<open>[lo2-hi2]\<close>.\<close>

fun match_two :: "char \<Rightarrow> char \<Rightarrow> char \<Rightarrow> char \<Rightarrow> string \<Rightarrow> (string \<times> string) list" where
  "match_two lo1 hi1 lo2 hi2 (a # b # rest) =
     (if in_range lo1 hi1 a \<and> in_range lo2 hi2 b then [([a, b], rest)] else [])"
| "match_two lo1 hi1 lo2 hi2 _ = []"

fun match_one :: "char \<Rightarrow> char \<Rightarrow> string \<Rightarrow> (string \<times> string) list" where
  "match_one lo hi (a # rest) = (if in_range lo hi a then [([a], rest)] else [])"
| "match_one lo hi [] = []"

definition match_m :: "string \<Rightarrow> (string \<times> string) list" where
  "match_m s =
     match_two CHR ''1'' CHR ''1'' CHR ''0'' CHR ''2'' s @
     match_two CHR ''0'' CHR ''0'' CHR ''1'' CHR ''9'' s @
     match_one CHR ''1'' CHR ''9'' s"

definition match_d :: "string \<Rightarrow> (string \<times> string) list" where
  "match_d s =
     match_two CHR ''3'' CHR ''3'' CHR ''0'' CHR ''1'' s @
     match_two CHR ''1'' CHR ''2'' CHR ''0'' CHR ''9'' s @
     match_two CHR ''0'' CHR ''0'' CHR ''1'' CHR ''9'' s @
     match_one CHR ''1'' CHR ''9'' s @
     match_two CHR '' '' CHR '' '' CHR ''1'' CHR ''9'' s"

text \<open>All matches of the whole expression, in the order of the search: the groups Y, m, d and the unconverted rest.\<close>

definition format_matches :: "string \<Rightarrow> (string \<times> string \<times> string \<times> string) list" where
  "format_matches s =
     concat (map (\<lambda>(y, r1).
       concat (map (\<lambda>r2.
         concat (map (\<lambda>(m, r3).
           concat (map (\<lambda>r4.
             map (\<lambda>(d, r5). (y, m, d, r5)) (match_d r4))
           (match_lit CHR ''-'' r3)))
         (match_m r2)))
       (match_lit CHR ''-'' r1)))
     (match_Y s))"

text \<open>\<open>int(text)\<close> on a group: digits, after the blank that the last alternative of \<open>d\<close> admits.\<close>

definition py_int :: "string \<Rightarrow> nat" where
  "py_int s = foldl (\<lambda>acc c. 10 * acc + (of_char c - 48)) 0 (strip s)"

definition isleap :: "nat \<Rightarrow> bool" where
  "isleap y \<longleftrightarrow> y mod 4 = 0 \<and> (y mod 100 \<noteq> 0 \<or> y mod 400 = 0)"

definition days_in_month :: "nat \<Rightarrow> nat \<Rightarrow> nat" where
  "days_in_month y m =
     (if m = 2 then (if isleap y then 29 else 28)
      else if m = 4 \<or> m = 6 \<or> m = 9 \<or> m = 11 then 30 else 31)"

datatype value_error = Does_not_match | Unconverted_data_remains | Out_of_range

definition strptime :: "string \<Rightarrow> value_error + (nat \<times> nat \<times> nat)" where
  "strptime s =
     (case format_matches s of
        [] \<Rightarrow> Inl Does_not_match
      | (y, m, d, rest) # _ \<Rightarrow>
          if rest \<noteq> [] then Inl Unconverted_data_remains
          else let year = py_int y; month = py_int m; dy = py_int d
               in if year < 1 \<or> dy < 1 \<or> days_in_month year month < dy then Inl Out_of_range
                  else Inr (year, month, dy))"

definition validate_iso_date :: "string \<Rightarrow> bool" where
  "validate_iso_date s = (case strptime (strip s) of Inr _ \<Rightarrow> True | Inl _ \<Rightarrow> False)"

subsection \<open>LessonDialog\<close>

text \<open>
  The dialog holds three entries, the variable of the check button, and \<open>result\<close>,
  which is \<open>None\<close> until a save succeeds. \<open>destroyed\<close> records \<open>self.destroy()\<close>.
  \<open>initial\<close> is the dictionary passed to the constructor: a key that is absent is
  \<open>None\<close>, and the constructor's defaults are the empty string, \<open>today_iso()\<close> and 0.
\<close>

record dialog_result =
  res_title :: string
  res_course :: string
  res_day :: string
  res_done :: int

record initial =
  ini_title :: "string option"
  ini_course :: "string option"
  ini_day :: "string option"
  ini_done :: "int option"

record lesson_dialog =
  e_title :: string
  e_course :: string
  e_day :: string
  var_done :: int
  result :: "dialog_result option"
  destroyed :: bool

definition dialog_init :: "initial \<Rightarrow> string \<Rightarrow> lesson_dialog" where
  "dialog_init ini today =
     \<lparr>e_title = (case ini_title ini of None \<Rightarrow> [] | Some t \<Rightarrow> t),
      e_course = (case ini_course ini of None \<Rightarrow> [] | Some c \<Rightarrow> c),
      e_day = (case ini_day ini of None \<Rightarrow> today | Some d \<Rightarrow> d),
      var_done = (case ini_done ini of None \<Rightarrow> 0 | Some v \<Rightarrow> v),
      result = None,
      destroyed = False\<rparr>"

text \<open>
  \<^verbatim>\<open>
  def _save(self):
      title = self.e_title.get().strip()
      course = self.e_course.get().strip()
      day = self.e_day.get().strip()
      done = int(self.var_done.get())
      if not title: messagebox.showerror(...); return
      if not course: messagebox.showerror(...); return
      if not validate_iso_date(day): messagebox.showerror(...); return
      self.result = {"title": title, "course": course, "day": day, "done": done}
      self.destroy()
  \<close>
  The first component of the result is the message of \<open>messagebox.showerror\<close>, if one is shown.
\<close>

definition save :: "lesson_dialog \<Rightarrow> string option \<times> lesson_dialog" where
  "save dlg =
     (let t = strip (e_title dlg); c = strip (e_course dlg); d = strip (e_day dlg);
          dn = var_done dlg
      in if t = [] then (Some ''Inserisci il nome della lezione.'', dlg)
         else if c = [] then (Some ''Inserisci il corso/categoria.'', dlg)
         else if \<not> validate_iso_date d
           then (Some ''La data deve essere nel formato YYYY-MM-DD (es. 2025-11-25).'', dlg)
         else (None,
               dlg\<lparr>result := Some \<lparr>res_title = t, res_course = c, res_day = d, res_done = dn\<rparr>,
                   destroyed := True\<rparr>))"

definition cancel :: "lesson_dialog \<Rightarrow> lesson_dialog" where
  "cancel dlg = dlg\<lparr>result := None, destroyed := True\<rparr>"

definition set_today :: "string \<Rightarrow> lesson_dialog \<Rightarrow> lesson_dialog" where
  "set_today today dlg = dlg\<lparr>e_day := today\<rparr>"

text \<open>
  What the user can do while the dialog is open: replace the text of an entry,
  click the check button (it switches between its on value 1 and its off value 0),
  press Oggi, press Salva (or Return), press Annulla (or Escape, or close the window).
  \<open>wait_window\<close> handles these events until the dialog is destroyed.
\<close>

datatype dialog_event =
  Type_title string | Type_course string | Type_day string
| Click_done | Press_oggi | Press_salva | Press_annulla

fun dialog_step :: "string \<Rightarrow> dialog_event \<Rightarrow> lesson_dialog \<Rightarrow> lesson_dialog" where
  "dialog_step today (Type_title t) dlg = dlg\<lparr>e_title := t\<rparr>"
| "dialog_step today (Type_course c) dlg = dlg\<lparr>e_course := c\<rparr>"
| "dialog_step today (Type_day d) dlg = dlg\<lparr>e_day := d\<rparr>"
| "dialog_step today Click_done dlg = dlg\<lparr>var_done := (if var_done dlg = 1 then 0 else 1)\<rparr>"
| "dialog_step today Press_oggi dlg = set_today today dlg"
| "dialog_step today Press_salva dlg = snd (save dlg)"
| "dialog_step today Press_annulla dlg = cancel dlg"

fun wait_window :: "string \<Rightarrow> dialog_event list \<Rightarrow> lesson_dialog \<Rightarrow> lesson_dialog" where
  "wait_window today [] dlg = dlg"
| "wait_window today (e # es) dlg =
     (if destroyed dlg then dlg else wait_window today es (dialog_step today e dlg))"

subsection \<open>App: the callbacks that write to the store\<close>

text \<open>
  Each callback ends with \<open>_reload_all\<close>, which only reads the store and redraws;
  the functions below give the store after the callback. \<open>sel\<close> is what
  \<open>_get_selected_row\<close> returns: \<open>None\<close> without a selection, else the row shown.
  While the dialog is still open no store call has been made.
  \<^verbatim>\<open>
  def _add(self):
      dlg = LessonDialog(self, initial={"day": self.var_day.get()
                if validate_iso_date(self.var_day.get()) else today_iso()})
      self.wait_window(dlg)
      if not dlg.result: return
      self.db.add_lesson(**dlg.result)
  def _edit_selected(self):
      row = self._get_selected_row()
      if not row: ...; return
      dlg = LessonDialog(self, initial=row)
      self.wait_window(dlg)
      if not dlg.result: return
      self.db.update_lesson(row["id"], **dlg.result)
  def _delete_selected(self):
      row = self._get_selected_row()
      if not row: ...; return
      if not messagebox.askyesno(...): return
      self.db.delete_lesson(row["id"])
  def _toggle_done_selected(self):
      row = self._get_selected_row()
      if not row: ...; return
      self.db.toggle_done(row["id"])
  \<close>
\<close>

definition app_add :: "string \<Rightarrow> string \<Rightarrow> string \<Rightarrow> dialog_event list \<Rightarrow> db \<Rightarrow> db" where
  "app_add var_day today now evs s =
     (let ini = \<lparr>ini_title = None, ini_course = None,
                 ini_day = Some (if validate_iso_date var_day then var_day else today),
                 ini_done = None\<rparr>;
          dlg = wait_window today evs (dialog_init ini today)
      in case result dlg of
           None \<Rightarrow> s
         | Some p \<Rightarrow> add_lesson (res_title p) (res_course p) (res_day p) (Some (res_done p)) now s)"

definition app_edit_selected :: "row option \<Rightarrow> string \<Rightarrow> dialog_event list \<Rightarrow> db \<Rightarrow> db" where
  "app_edit_selected sel today evs s =
     (case sel of
        None \<Rightarrow> s
      | Some row \<Rightarrow>
          (let ini = \<lparr>ini_title = Some (title row), ini_course = Some (course row),
                      ini_day = Some (day row), ini_done = Some (done row)\<rparr>;
               dlg = wait_window today evs (dialog_init ini today)
           in case result dlg of
                None \<Rightarrow> s
              | Some p \<Rightarrow>
                  update_lesson (lesson_id row) (res_title p) (res_course p) (res_day p) (res_done p) s))"

definition app_delete_selected :: "row option \<Rightarrow> bool \<Rightarrow> db \<Rightarrow> db" where
  "app_delete_selected sel askyesno s =
     (case sel of
        None \<Rightarrow> s
      | Some row \<Rightarrow> if \<not> askyesno then s else delete_lesson (lesson_id row) s)"

definition app_toggle_done_selected :: "row option \<Rightarrow> db \<Rightarrow> db" where
  "app_toggle_done_selected sel s =
     (case sel of None \<Rightarrow> s | Some row \<Rightarrow> toggle_done (lesson_id row) s)"

text \<open>The stores the program can produce, from the empty table that \<open>_init_schema\<close> creates.\<close>

inductive reachable :: "db \<Rightarrow> bool" where
  start: "reachable init_schema"
| add: "reachable s \<Longrightarrow> reachable (app_add var_day today now evs s)"
| edit: "reachable s \<Longrightarrow> reachable (app_edit_selected sel today evs s)"
| delete: "reachable s \<Longrightarrow> reachable (app_delete_selected sel askyesno s)"
| toggle: "reachable s \<Longrightarrow> reachable (app_toggle_done_selected sel s)"

section \<open>Notions used to state the properties\<close>

text \<open>
  \<open>is_done\<close> is the truth value Python gives the column, as \<open>_load_table\<close> reads it
  (\<^verbatim>\<open>"Fatta" if r["done"] else "Da fare"\<close>). \<open>find_lesson\<close> is the stored row with a given id.
\<close>

definition is_done :: "'a row_scheme \<Rightarrow> bool" where
  "is_done r \<longleftrightarrow> done r \<noteq> 0"

definition find_lesson :: "int \<Rightarrow> db \<Rightarrow> lesson option" where
  "find_lesson i s = find (\<lambda>r. lesson_id r = i) (lessons s)"

text \<open>
  The selection as the specification words it: a filter that is the sentinel or
  empty restricts nothing, any other filter is an exact match, and
  \<open>only_undone\<close> restricts to \<open>done = 0\<close>.
\<close>

definition no_day_filter :: "string option \<Rightarrow> bool" where
  "no_day_filter d \<longleftrightarrow> d = None \<or> d = Some [] \<or> d = Some ''TUTTE''"

definition no_course_filter :: "string option \<Rightarrow> bool" where
  "no_course_filter c \<longleftrightarrow> c = None \<or> c = Some [] \<or> c = Some ''TUTTI''"

definition spec_selected :: "string option \<Rightarrow> string option \<Rightarrow> bool \<Rightarrow> lesson \<Rightarrow> bool" where
  "spec_selected d c only_undone r \<longleftrightarrow>
     (no_day_filter d \<or> d = Some (day r)) \<and>
     (no_course_filter c \<or> c = Some (course r)) \<and>
     (if only_undone then done r = 0 else True)"

text \<open>
  Comparison without regard to case, as the specification words it, stated by the
  alphabet and not by the arithmetic of \<open>lower_ascii\<close>: each of the 26 upper case
  letters counts as the lower case letter at the same place of the alphabet, every
  other character counts as itself, and texts are then compared character by
  character. \<open>ci_equal\<close> holds of two spellings that differ in case only.
\<close>

definition upper_letters :: string where
  "upper_letters = ''ABCDEFGHIJKLMNOPQRSTUVWXYZ''"

definition lower_letters :: string where
  "lower_letters = ''abcdefghijklmnopqrstuvwxyz''"

definition fold_case :: "char \<Rightarrow> char" where
  "fold_case c = (case map_of (zip upper_letters lower_letters) c of Some l \<Rightarrow> l | None \<Rightarrow> c)"

definition ci_less :: "string \<Rightarrow> string \<Rightarrow> bool" where
  "ci_less a b \<longleftrightarrow> map fold_case a < map fold_case b"

definition ci_equal :: "string \<Rightarrow> string \<Rightarrow> bool" where
  "ci_equal a b \<longleftrightarrow> map fold_case a = map fold_case b"


text \<open>
  An interaction with the dialog in which the title entry is blank whenever Salva
  is pressed; the first argument is the text of the entry before the events.
\<close>

fun blank_title_at_save :: "string \<Rightarrow> dialog_event list \<Rightarrow> bool" where
  "blank_title_at_save t [] = True"
| "blank_title_at_save t (Type_title t' # es) = blank_title_at_save t' es"
| "blank_title_at_save t (Press_salva # es) = (strip t = [] \<and> blank_title_at_save t es)"
| "blank_title_at_save t (e # es) = blank_title_at_save t es"

text \<open>
  The ISO pattern YYYY-MM-DD, as the specification and the dialog's label and error
  message name it: four digits, a hyphen, two digits, a hyphen, two digits.
\<close>

definition iso_date_pattern :: "string \<Rightarrow> bool" where
  "iso_date_pattern s \<longleftrightarrow>
     (case s of
        [y1, y2, y3, y4, h1, m1, m2, h2, d1, d2] \<Rightarrow>
          is_digit y1 \<and> is_digit y2 \<and> is_digit y3 \<and> is_digit y4 \<and> h1 = CHR ''-'' \<and>
          is_digit m1 \<and> is_digit m2 \<and> h2 = CHR ''-'' \<and> is_digit d1 \<and> is_digit d2
      | _ \<Rightarrow> False)"

text \<open>What \<open>_save\<close> guarantees of a result, and what follows for a stored row.\<close>

definition valid_result :: "dialog_result \<Rightarrow> bool" where
  "valid_result p \<longleftrightarrow>
     strip (res_title p) \<noteq> [] \<and> strip (res_course p) \<noteq> [] \<and> validate_iso_date (res_day p)"

definition result_ok :: "lesson_dialog \<Rightarrow> bool" where
  "result_ok dlg \<longleftrightarrow> (case result dlg of None \<Rightarrow> True | Some p \<Rightarrow> valid_result p)"

definition stored_ok :: "lesson \<Rightarrow> bool" where
  "stored_ok r \<longleftrightarrow> title r \<noteq> [] \<and> course r \<noteq> [] \<and> validate_iso_date (day r)"

definition store_inv :: "db \<Rightarrow> bool" where
  "store_inv s \<longleftrightarrow> primary_key s \<and> list_all stored_ok (lessons s)"

subsection \<open>Example stores\<close>

text \<open>
  The scenario of the specification: Algebra (Math, 10 January), Geometry (Math,
  5 January) and History 1 (History, 5 January), inserted in this order.
\<close>

definition example_db :: db where
  "example_db =
     add_lesson ''History 1'' ''History'' ''2025-01-05'' None ''2025-01-01 09:00:02''
       (add_lesson ''Geometry'' ''Math'' ''2025-01-05'' None ''2025-01-01 09:00:01''
         (add_lesson '' Algebra '' ''Math'' ''2025-01-10'' None ''2025-01-01 09:00:00''
           init_schema))"


text \<open>One course in two spellings.\<close>

definition casing_db :: db where
  "casing_db =
     add_lesson ''Sets'' ''math'' ''2025-02-01'' None ''2025-01-01 09:00:02''
       (add_lesson ''Rome'' ''History'' ''2025-02-01'' None ''2025-01-01 09:00:01''
         (add_lesson ''Groups'' ''Math'' ''2025-02-01'' None ''2025-01-01 09:00:00''
           init_schema))"


text \<open>A row whose \<open>done\<close> holds 5, as \<open>add_lesson(..., done=5)\<close> stores it.\<close>

definition done5_db :: db where
  "done5_db = add_lesson ''Algebra'' ''Math'' ''2025-01-10'' (Some 5) ''2025-01-01 09:00:00'' init_schema"

text \<open>
  The add dialog, filled with the day \<open>2025-1-5\<close> and saved, on the empty store.
\<close>

definition lenient_day_db :: db where
  "lenient_day_db =
     app_add ''TUTTE'' ''2025-11-25'' ''2025-11-25 10:00:00''
       [Type_title ''Algebra'', Type_course ''Math'', Type_day ''2025-1-5'', Press_salva]
       init_schema"

section \<open>Evaluation of the example stores\<close>

lemma example_db_eval:
  "example_db =
   \<lparr>lessons =
    [\<lparr>lesson_id = 1, title = ''Algebra'', course = ''Math'', day = ''2025-01-10'', done = 0,
        created_at = ''2025-01-01 09:00:00''\<rparr>,
     \<lparr>lesson_id = 2, title = ''Geometry'', course = ''Math'', day = ''2025-01-05'', done = 0,
        created_at = ''2025-01-01 09:00:01''\<rparr>,
     \<lparr>lesson_id = 3, title = ''History 1'', course = ''History'', day = ''2025-01-05'', done = 0,
        created_at = ''2025-01-01 09:00:02''\<rparr>],
    seq = 3\<rparr>"
  by code_simp

lemma casing_db_eval:
  "lessons casing_db =
    [\<lparr>lesson_id = 1, title = ''Groups'', course = ''Math'', day = ''2025-02-01'', done = 0,
        created_at = ''2025-01-01 09:00:00''\<rparr>,
     \<lparr>lesson_id = 2, title = ''Rome'', course = ''History'', day = ''2025-02-01'', done = 0,
        created_at = ''2025-01-01 09:00:01''\<rparr>,
     \<lparr>lesson_id = 3, title = ''Sets'', course = ''math'', day = ''2025-02-01'', done = 0,
        created_at = ''2025-01-01 09:00:02''\<rparr>]"
  by code_simp

lemma done5_db_eval:
  "lessons done5_db =
    [\<lparr>lesson_id = 1, title = ''Algebra'', course = ''Math'', day = ''2025-01-10'', done = 5,
        created_at = ''2025-01-01 09:00:00''\<rparr>]"
  by code_simp

lemma lenient_day_db_eval:
  "lessons lenient_day_db =
     [\<lparr>lesson_id = 1, title = ''Algebra'', course = ''Math'', day = ''2025-1-5'', done = 0,
       created_at = ''2025-11-25 10:00:00''\<rparr>]"
  by code_simp


section \<open>NOCASE is the comparison without regard to case\<close>






lemma nocase_letters: "nocase upper_letters = lower_letters \<and> nocase lower_letters = lower_letters"
  by code_simp

lemma ci_less_examples:
  "ci_less ''b'' ''C'' \<and> \<not> ''b'' < ''C'' \<and> ci_less ''b'' ''Math'' \<and> \<not> ''b'' < ''Math'' \<and>
   ci_equal ''math'' ''Math'' \<and> ''math'' \<noteq> ''Math'' \<and> ''Math'' < ''math''"
  by code_simp

section \<open>The query\<close>

lemma holds_query_where:
  "list_all (\<lambda>w. holds w r) (query_where d c u) = spec_selected d c u r"
  by (cases d; cases c)
     (auto simp: query_where_def spec_selected_def no_day_filter_def no_course_filter_def)

lemma query_filter:
  "query s d c u = map row.truncate (sort_key order_key (filter (spec_selected d c u) (lessons s)))"
  by (simp add: query_def holds_query_where)

lemma set_query:
  "set (query s d c u) = row.truncate ` {r \<in> set (lessons s). spec_selected d c u r}"
  by (simp add: query_filter)

lemma query_ids: "r \<in> set (query s d c u) \<Longrightarrow> lesson_id r \<in> lesson_id ` set (lessons s)"
  by (auto simp: set_query row.truncate_def)

text \<open>
  C2: for every store and every combination of filters, \<open>query\<close> returns exactly
  the stored rows that satisfy the conjunction of the three filters (each such row
  once, as the five selected columns): no day restriction for \<open>None\<close>, the empty
  string and \<open>TUTTE\<close>, else equality on day; no course restriction for \<open>None\<close>, the
  empty string and \<open>TUTTI\<close>, else equality on course; \<open>done = 0\<close> when
  \<open>only_undone\<close> is set.
\<close>

theorem query_returns_exactly_selected:
  "mset (query s d c u) =
     image_mset row.truncate (filter_mset (spec_selected d c u) (mset (lessons s)))"
  by (simp add: query_filter)

theorem query_returns_exactly_selected_witness:
  "mset (query example_db (Some ''2025-01-05'') (Some ''TUTTI'') False) =
     {#\<lparr>lesson_id = 2, title = ''Geometry'', course = ''Math'', day = ''2025-01-05'', done = 0\<rparr>,
       \<lparr>lesson_id = 3, title = ''History 1'', course = ''History'', day = ''2025-01-05'', done = 0\<rparr>#}"
  using query_returns_exactly_selected[of example_db "Some ''2025-01-05''" "Some ''TUTTI''" False]
  by (simp add: example_db_eval spec_selected_def no_day_filter_def no_course_filter_def
      row.truncate_def)

subsection \<open>Order of the result\<close>








subsection \<open>The sentinels\<close>

lemma query_course_restricted:
  assumes "\<not> no_course_filter cf" "r \<in> set (query s d cf u)"
  shows "cf = Some (course r)"
proof -
  from assms(2) obtain l where "l \<in> set (lessons s)" "spec_selected d cf u l" "r = row.truncate l"
    unfolding set_query by blast
  then show ?thesis using assms(1) by (simp add: spec_selected_def row.truncate_def)
qed

lemma query_day_restricted:
  assumes "\<not> no_day_filter df" "r \<in> set (query s df c u)"
  shows "df = Some (day r)"
proof -
  from assms(2) obtain l where "l \<in> set (lessons s)" "spec_selected df c u l" "r = row.truncate l"
    unfolding set_query by blast
  then show ?thesis using assms(1) by (simp add: spec_selected_def row.truncate_def)
qed

lemma course_clause_no_filter: "no_course_filter cf \<Longrightarrow> course_clause cf = []"
  by (cases cf) (auto simp: no_course_filter_def)

lemma day_clause_no_filter: "no_day_filter df \<Longrightarrow> day_clause df = []"
  by (cases df) (auto simp: no_day_filter_def)

lemma query_no_course_filter: "no_course_filter cf \<Longrightarrow> query s d cf u = query s d None u"
  by (simp add: query_def query_where_def course_clause_no_filter)

lemma query_no_day_filter: "no_day_filter df \<Longrightarrow> query s df c u = query s None c u"
  by (simp add: query_def query_where_def day_clause_no_filter)

text \<open>
  C10: for every store and every flag, the course filter \<open>TUTTI\<close> restricts nothing
  (the result is that of the query without a course filter), and the day filter
  \<open>TUTTE\<close> restricts nothing. Hence no filter selects by the course \<open>TUTTI\<close>: a
  query either has no course restriction, or returns no row whose course is
  \<open>TUTTI\<close>; and likewise for the day \<open>TUTTE\<close>.
\<close>

theorem sentinel_never_filters:
  "query s d (Some ''TUTTI'') u = query s d None u \<and>
   query s (Some ''TUTTE'') c u = query s None c u \<and>
   (query s d cf u = query s d None u \<or> (\<forall>r \<in> set (query s d cf u). course r \<noteq> ''TUTTI'')) \<and>
   (query s df c u = query s None c u \<or> (\<forall>r \<in> set (query s df c u). day r \<noteq> ''TUTTE''))"
proof (intro conjI)
  show "query s d (Some ''TUTTI'') u = query s d None u"
    by (rule query_no_course_filter) (simp add: no_course_filter_def)
  show "query s (Some ''TUTTE'') c u = query s None c u"
    by (rule query_no_day_filter) (simp add: no_day_filter_def)
  show "query s d cf u = query s d None u \<or> (\<forall>r \<in> set (query s d cf u). course r \<noteq> ''TUTTI'')"
  proof (cases "no_course_filter cf")
    case True
    then show ?thesis by (simp add: query_no_course_filter)
  next
    case False
    have "course r \<noteq> ''TUTTI''" if "r \<in> set (query s d cf u)" for r
    proof
      assume "course r = ''TUTTI''"
      with query_course_restricted[OF False that] have "cf = Some ''TUTTI''" by simp
      with False show False by (simp add: no_course_filter_def)
    qed
    then show ?thesis by blast
  qed
  show "query s df c u = query s None c u \<or> (\<forall>r \<in> set (query s df c u). day r \<noteq> ''TUTTE'')"
  proof (cases "no_day_filter df")
    case True
    then show ?thesis by (simp add: query_no_day_filter)
  next
    case False
    have "day r \<noteq> ''TUTTE''" if "r \<in> set (query s df c u)" for r
    proof
      assume "day r = ''TUTTE''"
      with query_day_restricted[OF False that] have "df = Some ''TUTTE''" by simp
      with False show False by (simp add: no_day_filter_def)
    qed
    then show ?thesis by blast
  qed
qed

theorem sentinel_never_filters_witness:
  "map course (query casing_db None None False) = [''History'', ''Math'', ''math''] \<and>
   query casing_db None (Some ''TUTTI'') False = query casing_db None None False \<and>
   query casing_db (Some ''TUTTE'') None False = query casing_db None None False \<and>
   query casing_db None (Some ''Math'') False \<noteq> query casing_db None None False \<and>
   ''TUTTI'' \<notin> course ` set (query casing_db None (Some ''Math'') False)"
proof -
  have ev: "map course (query casing_db None None False) = [''History'', ''Math'', ''math'']"
    by code_simp
  have ev2: "map course (query casing_db None (Some ''Math'') False) = [''Math'']"
    by code_simp
  have ne: "query casing_db None (Some ''Math'') False \<noteq> query casing_db None None False"
  proof
    assume "query casing_db None (Some ''Math'') False = query casing_db None None False"
    then have "map course (query casing_db None (Some ''Math'') False)
                 = map course (query casing_db None None False)" by simp
    then show False unfolding ev ev2 by simp
  qed
  note T = sentinel_never_filters[of casing_db None False None "Some ''Math''" "Some ''TUTTE''"]
  from T have a: "query casing_db None (Some ''TUTTI'') False = query casing_db None None False"
    by (rule conjunct1)
  from T have b: "query casing_db (Some ''TUTTE'') None False = query casing_db None None False"
    by (elim conjE)
  from T ne have all: "\<forall>r \<in> set (query casing_db None (Some ''Math'') False). course r \<noteq> ''TUTTI''"
    by (elim conjE disjE) simp_all
  have c: "''TUTTI'' \<notin> course ` set (query casing_db None (Some ''Math'') False)"
  proof
    assume "''TUTTI'' \<in> course ` set (query casing_db None (Some ''Math'') False)"
    then obtain r where "r \<in> set (query casing_db None (Some ''Math'') False)" "''TUTTI'' = course r"
      by (rule imageE)
    with bspec[OF all this(1)] show False by simp
  qed
  from ev a b ne c show ?thesis by (intro conjI)
qed

section \<open>The mutating operations\<close>

lemma find_map_upd:
  assumes "\<And>r. lesson_id (f r) = lesson_id r"
  shows "find (\<lambda>r. lesson_id r = i) (map (\<lambda>r. if lesson_id r = i then f r else r) xs)
     = map_option f (find (\<lambda>r. lesson_id r = i) xs)"
  using assms by (induction xs) auto

lemma toggle_done_twice_lessons:
  "lessons (toggle_done i (toggle_done i s)) =
     map (\<lambda>r. if lesson_id r = i then r\<lparr>done := case_done (case_done (done r))\<rparr> else r) (lessons s)"
  by (simp add: toggle_done_def comp_def cong: if_cong)

text \<open>
  C5: for every store and every id that a stored row \<open>r\<close> carries, after two
  calls of \<open>toggle_done\<close> the row with that id has the done flag of \<open>r\<close>; when the
  column holds 0 or 1 the whole row is \<open>r\<close> again. (A column value other than 0 and
  1 counts as done and comes back as 1.)
\<close>

theorem toggle_done_twice:
  assumes "find_lesson i s = Some r"
  shows "\<exists>r'. find_lesson i (toggle_done i (toggle_done i s)) = Some r' \<and>
              is_done r' = is_done r \<and>
              (done r = 0 \<or> done r = 1 \<longrightarrow> r' = r)"
proof -
  let ?f = "\<lambda>r::lesson. r\<lparr>done := case_done (case_done (done r))\<rparr>"
  have "find_lesson i (toggle_done i (toggle_done i s)) = map_option ?f (find_lesson i s)"
    unfolding find_lesson_def toggle_done_twice_lessons
    by (rule find_map_upd) simp
  then have 1: "find_lesson i (toggle_done i (toggle_done i s)) = Some (?f r)"
    using assms by simp
  have 2: "is_done (?f r) = is_done r"
    by (simp add: is_done_def case_done_def)
  have 3: "done r = 0 \<or> done r = 1 \<longrightarrow> ?f r = r"
    by (auto simp: case_done_def)
  from 1 2 3 show ?thesis by blast
qed

theorem toggle_done_twice_witness:
  "find_lesson 2 example_db = Some (lessons example_db ! 1) \<and>
   done (lessons example_db ! 1) = 0 \<and>
   find_lesson 2 (toggle_done 2 (toggle_done 2 example_db)) = Some (lessons example_db ! 1) \<and>
   map done (lessons (toggle_done 2 example_db)) = [0, 1, 0] \<and>
   find_lesson 1 done5_db = Some (lessons done5_db ! 0) \<and>
   done (lessons done5_db ! 0) = 5 \<and>
   map done (lessons (toggle_done 1 (toggle_done 1 done5_db))) = [1] \<and>
   map is_done (lessons (toggle_done 1 (toggle_done 1 done5_db))) = map is_done (lessons done5_db)"
proof -
  have f: "find_lesson 2 example_db = Some (lessons example_db ! 1)"
    by (simp add: find_lesson_def example_db_eval)
  have d: "done (lessons example_db ! 1) = 0"
    by (simp add: example_db_eval)
  have t: "map done (lessons (toggle_done 2 example_db)) = [0, 1, 0]"
    by (simp add: toggle_done_def example_db_eval case_done_def)
  from toggle_done_twice[OF f] d
  have "find_lesson 2 (toggle_done 2 (toggle_done 2 example_db)) = Some (lessons example_db ! 1)"
    by auto
  note a = this
  have f5: "find_lesson 1 done5_db = Some (lessons done5_db ! 0)"
    by (simp add: find_lesson_def done5_db_eval)
  have d5: "done (lessons done5_db ! 0) = 5"
    by (simp add: done5_db_eval)
  have t5: "map done (lessons (toggle_done 1 (toggle_done 1 done5_db))) = [1]"
    by (simp add: toggle_done_twice_lessons done5_db_eval case_done_def)
  have l5: "length (lessons (toggle_done 1 (toggle_done 1 done5_db))) = 1"
    using arg_cong[OF t5, of length] by simp
  from toggle_done_twice[OF f5] obtain r' where
    r': "find_lesson 1 (toggle_done 1 (toggle_done 1 done5_db)) = Some r'"
    and fl: "is_done r' = is_done (lessons done5_db ! 0)"
    by blast
  from r' have "r' \<in> set (lessons (toggle_done 1 (toggle_done 1 done5_db)))"
    unfolding find_lesson_def by (auto simp: find_Some_iff)
  with l5 have "lessons (toggle_done 1 (toggle_done 1 done5_db)) = [r']"
    by (cases "lessons (toggle_done 1 (toggle_done 1 done5_db))") auto
  with fl have i5: "map is_done (lessons (toggle_done 1 (toggle_done 1 done5_db)))
      = map is_done (lessons done5_db)"
    by (simp add: done5_db_eval)
  from f d a t f5 d5 t5 i5 show ?thesis by (intro conjI)
qed

text \<open>
  C6: for every store, every id \<open>i\<close> and every position \<open>k\<close> of the table,
  \<open>toggle_done i\<close> keeps the number of rows and the sequence counter, keeps id,
  title, course, day and created_at of the row at \<open>k\<close>, leaves that row as it is
  when its id is not \<open>i\<close>, and changes nothing but its done column when its id is \<open>i\<close>.
\<close>

theorem toggle_done_frame:
  assumes "k < length (lessons s)"
  shows "length (lessons (toggle_done i s)) = length (lessons s) \<and>
         seq (toggle_done i s) = seq s \<and>
         lesson_id (lessons (toggle_done i s) ! k) = lesson_id (lessons s ! k) \<and>
         title (lessons (toggle_done i s) ! k) = title (lessons s ! k) \<and>
         course (lessons (toggle_done i s) ! k) = course (lessons s ! k) \<and>
         day (lessons (toggle_done i s) ! k) = day (lessons s ! k) \<and>
         created_at (lessons (toggle_done i s) ! k) = created_at (lessons s ! k) \<and>
         (lesson_id (lessons s ! k) \<noteq> i \<longrightarrow> lessons (toggle_done i s) ! k = lessons s ! k) \<and>
         (lesson_id (lessons s ! k) = i \<longrightarrow>
            lessons (toggle_done i s) ! k = (lessons s ! k)\<lparr>done := case_done (done (lessons s ! k))\<rparr>)"
  using assms by (simp add: toggle_done_def)

theorem toggle_done_frame_witness:
  "(1::nat) < length (lessons example_db) \<and>
   lesson_id (lessons example_db ! 1) = 2 \<and>
   lessons (toggle_done 2 example_db) ! 1 = (lessons example_db ! 1)\<lparr>done := 1\<rparr> \<and>
   title (lessons (toggle_done 2 example_db) ! 1) = ''Geometry'' \<and>
   (0::nat) < length (lessons example_db) \<and>
   lesson_id (lessons example_db ! 0) \<noteq> 2 \<and>
   lessons (toggle_done 2 example_db) ! 0 = lessons example_db ! 0"
proof -
  have k1: "(1::nat) < length (lessons example_db)" by (simp add: example_db_eval)
  have k0: "(0::nat) < length (lessons example_db)" by (simp add: example_db_eval)
  have i1: "lesson_id (lessons example_db ! 1) = 2" by (simp add: example_db_eval)
  have i0: "lesson_id (lessons example_db ! 0) \<noteq> 2" by (simp add: example_db_eval)
  have d1: "case_done (done (lessons example_db ! 1)) = 1"
    by (simp add: example_db_eval case_done_def)
  have t1: "title (lessons example_db ! 1) = ''Geometry''" by (simp add: example_db_eval)
  from toggle_done_frame[OF k1, of 2] i1 d1 t1
  have a: "lessons (toggle_done 2 example_db) ! 1 = (lessons example_db ! 1)\<lparr>done := 1\<rparr>"
    and b: "title (lessons (toggle_done 2 example_db) ! 1) = ''Geometry''"
    by simp_all
  from toggle_done_frame[OF k0, of 2] i0
  have c: "lessons (toggle_done 2 example_db) ! 0 = lessons example_db ! 0"
    by simp
  from k1 i1 a b k0 i0 c show ?thesis by (intro conjI)
qed

lemma absent_map_id:
  "i \<notin> lesson_id ` set xs \<Longrightarrow> map (\<lambda>r. if lesson_id r = i then f r else r) xs = xs"
  by (induction xs) auto

lemma absent_filter_id:
  "i \<notin> lesson_id ` set xs \<Longrightarrow> filter (\<lambda>r. lesson_id r \<noteq> i) xs = xs"
  by (induction xs) auto

text \<open>
  C7: for every store and every combination of filters, no row that \<open>query\<close>
  returns after \<open>delete_lesson i\<close> has the id \<open>i\<close>; and when no stored row has the
  id \<open>i\<close>, each of \<open>update_lesson\<close>, \<open>toggle_done\<close> and \<open>delete_lesson\<close> on \<open>i\<close>
  returns the store as it was (the operations have no error result).
\<close>

theorem delete_then_query_and_absent_id:
  "(\<forall>r \<in> set (query (delete_lesson i s) d c u). lesson_id r \<noteq> i) \<and>
   (i \<notin> lesson_id ` set (lessons s) \<longrightarrow>
      update_lesson i t co dy dn s = s \<and> toggle_done i s = s \<and> delete_lesson i s = s)"
proof (intro conjI ballI impI)
  fix r assume "r \<in> set (query (delete_lesson i s) d c u)"
  from query_ids[OF this] show "lesson_id r \<noteq> i"
    by (auto simp: delete_lesson_def)
next
  assume "i \<notin> lesson_id ` set (lessons s)"
  then show "update_lesson i t co dy dn s = s"
    by (simp add: update_lesson_def absent_map_id)
next
  assume "i \<notin> lesson_id ` set (lessons s)"
  then show "toggle_done i s = s"
    by (simp add: toggle_done_def absent_map_id)
next
  assume "i \<notin> lesson_id ` set (lessons s)"
  then show "delete_lesson i s = s"
    by (simp add: delete_lesson_def absent_filter_id)
qed

theorem delete_then_query_and_absent_id_witness:
  "map lesson_id (query (delete_lesson 2 example_db) None None False) = [3, 1] \<and>
   2 \<notin> lesson_id ` set (query (delete_lesson 2 example_db) None None False) \<and>
   99 \<notin> lesson_id ` set (lessons example_db) \<and>
   update_lesson 99 ''Logic'' ''Math'' ''2025-03-01'' 1 example_db = example_db \<and>
   toggle_done 99 example_db = example_db \<and>
   delete_lesson 99 example_db = example_db"
proof -
  have ev: "map lesson_id (query (delete_lesson 2 example_db) None None False) = [3, 1]"
    by code_simp
  have ab: "99 \<notin> lesson_id ` set (lessons example_db)"
    by (simp add: example_db_eval)
  note T = delete_then_query_and_absent_id[of 2 example_db None None False]
  have no2: "2 \<notin> lesson_id ` set (query (delete_lesson 2 example_db) None None False)"
  proof
    assume "2 \<in> lesson_id ` set (query (delete_lesson 2 example_db) None None False)"
    then obtain r where "r \<in> set (query (delete_lesson 2 example_db) None None False)"
      and "2 = lesson_id r" by (rule imageE)
    with T show False by simp
  qed
  from delete_then_query_and_absent_id[of 99 example_db None None False
        "''Logic''" "''Math''" "''2025-03-01''" 1] ab
  have "update_lesson 99 ''Logic'' ''Math'' ''2025-03-01'' 1 example_db = example_db \<and>
        toggle_done 99 example_db = example_db \<and> delete_lesson 99 example_db = example_db"
    by (elim conjE) simp
  with ev no2 ab show ?thesis by (intro conjI) simp_all
qed

text \<open>
  C3: for every store and every insert with \<open>add_lesson\<close>, a following \<open>query\<close>
  without restriction (each filter \<open>None\<close>, empty or the sentinel, \<open>only_undone\<close>
  false) returns a row with the new id whose title, course and day are the
  stripped arguments and whose done is the argument, or 0 when it is omitted.
  This holds for every insert, so for the valid ones.
\<close>

theorem add_lesson_then_query:
  assumes "no_day_filter d" and "no_course_filter c"
  shows "\<exists>r \<in> set (query (add_lesson t co dy dn now s) d c False).
           lesson_id r = next_id s \<and> title r = strip t \<and> course r = strip co \<and>
           day r = strip dy \<and> done r = (case dn of None \<Rightarrow> 0 | Some v \<Rightarrow> v)"
proof -
  let ?r = "\<lparr>lesson_id = next_id s, title = strip t, course = strip co, day = strip dy,
             done = (case dn of None \<Rightarrow> 0 | Some v \<Rightarrow> v), created_at = now\<rparr>"
  have "?r \<in> set (lessons (add_lesson t co dy dn now s))"
    by (simp add: add_lesson_def Let_def)
  moreover have "spec_selected d c False ?r"
    using assms by (simp add: spec_selected_def)
  ultimately have "row.truncate ?r \<in> set (query (add_lesson t co dy dn now s) d c False)"
    by (simp add: query_filter)
  then show ?thesis
    by (rule rev_bexI) (simp add: row.truncate_def)
qed

theorem add_lesson_then_query_witness:
  "no_day_filter (Some ''TUTTE'') \<and> no_course_filter None \<and>
   \<lparr>lesson_id = 4, title = ''Logic'', course = ''Math'', day = ''2025-03-01'', done = 0\<rparr>
     \<in> set (query (add_lesson ''  Logic '' ''Math  '' '' 2025-03-01'' None ''2025-01-02 08:00:00''
                    example_db) (Some ''TUTTE'') None False)"
proof -
  have d: "no_day_filter (Some ''TUTTE'')" by (simp add: no_day_filter_def)
  have c: "no_course_filter None" by (simp add: no_course_filter_def)
  have n: "next_id example_db = 4" by code_simp
  have s1: "strip ''  Logic '' = ''Logic''" by code_simp
  have s2: "strip ''Math  '' = ''Math''" by code_simp
  have s3: "strip '' 2025-03-01'' = ''2025-03-01''" by code_simp
  from add_lesson_then_query[OF d c, of "''  Logic ''" "''Math  ''" "'' 2025-03-01''" None
        "''2025-01-02 08:00:00''" example_db]
  obtain r where r: "r \<in> set (query (add_lesson ''  Logic '' ''Math  '' '' 2025-03-01'' None
        ''2025-01-02 08:00:00'' example_db) (Some ''TUTTE'') None False)"
    and f: "lesson_id r = 4" "title r = ''Logic''" "course r = ''Math''" "day r = ''2025-03-01''"
       "done r = 0"
    unfolding n s1 s2 s3 by auto
  from f have "r = \<lparr>lesson_id = 4, title = ''Logic'', course = ''Math'', day = ''2025-03-01'', done = 0\<rparr>"
    by (cases r) simp
  with r d c show ?thesis by simp
qed



section \<open>The dialog\<close>

lemma save_blank_title:
  "strip (e_title dlg) = [] \<Longrightarrow> save dlg = (Some ''Inserisci il nome della lezione.'', dlg)"
  by (simp add: save_def Let_def)

lemma wait_window_blank_title:
  "blank_title_at_save (e_title dlg) evs \<Longrightarrow> result dlg = None \<Longrightarrow>
   result (wait_window today evs dlg) = None"
proof (induction evs arbitrary: dlg)
  case Nil
  then show ?case by simp
next
  case (Cons e es)
  show ?case
  proof (cases "destroyed dlg")
    case True
    then show ?thesis using Cons.prems by simp
  next
    case False
    have "blank_title_at_save (e_title (dialog_step today e dlg)) es \<and>
          result (dialog_step today e dlg) = None"
      using Cons.prems by (cases e) (simp_all add: set_today_def cancel_def save_blank_title)
    then have "result (wait_window today es (dialog_step today e dlg)) = None"
      using Cons.IH by blast
    then show ?thesis using False by simp
  qed
qed

text \<open>
  C9: when the title entry is blank after stripping, \<open>_save\<close> shows its error and
  leaves the dialog as it was: still open, without a result. So an add or edit
  interaction in which the title is blank at every press of Salva ends without a
  result, and the callback returns the store unchanged (\<open>_save\<close> itself has no
  access to the store), whatever else the user enters.
\<close>

theorem blank_title_rejected:
  "(strip (e_title dlg) = [] \<longrightarrow> save dlg = (Some ''Inserisci il nome della lezione.'', dlg)) \<and>
   (blank_title_at_save [] evs \<longrightarrow> app_add var_day today now evs s = s) \<and>
   (blank_title_at_save (title row) evs \<longrightarrow> app_edit_selected (Some row) today evs s = s)"
proof (intro conjI impI)
  assume "strip (e_title dlg) = []"
  then show "save dlg = (Some ''Inserisci il nome della lezione.'', dlg)"
    by (rule save_blank_title)
next
  assume "blank_title_at_save [] evs"
  then have "result (wait_window today evs (dialog_init
      \<lparr>ini_title = None, ini_course = None,
       ini_day = Some (if validate_iso_date var_day then var_day else today),
       ini_done = None\<rparr> today)) = None"
    by (intro wait_window_blank_title) (simp_all add: dialog_init_def)
  then show "app_add var_day today now evs s = s"
    by (simp add: app_add_def Let_def)
next
  assume "blank_title_at_save (title row) evs"
  then have "result (wait_window today evs (dialog_init
      \<lparr>ini_title = Some (title row), ini_course = Some (course row),
       ini_day = Some (day row), ini_done = Some (done row)\<rparr> today)) = None"
    by (intro wait_window_blank_title) (simp_all add: dialog_init_def)
  then show "app_edit_selected (Some row) today evs s = s"
    by (simp add: app_edit_selected_def Let_def)
qed

theorem blank_title_rejected_witness:
  "strip (e_title (dialog_init \<lparr>ini_title = Some ''   '', ini_course = Some ''Math'',
        ini_day = None, ini_done = None\<rparr> ''2025-11-25'')) = [] \<and>
   snd (save (dialog_init \<lparr>ini_title = Some ''   '', ini_course = Some ''Math'',
        ini_day = None, ini_done = None\<rparr> ''2025-11-25''))
     = \<lparr>e_title = ''   '', e_course = ''Math'', e_day = ''2025-11-25'', var_done = 0,
        result = None, destroyed = False\<rparr> \<and>
   blank_title_at_save [] [Type_title ''  '', Type_course ''Math'', Press_salva, Press_annulla] \<and>
   app_add ''TUTTE'' ''2025-11-25'' ''2025-11-25 10:00:00''
     [Type_title ''  '', Type_course ''Math'', Press_salva, Press_annulla] example_db = example_db \<and>
   blank_title_at_save ''Geometry'' [Type_title [], Press_salva] \<and>
   app_edit_selected
     (Some \<lparr>lesson_id = 2, title = ''Geometry'', course = ''Math'', day = ''2025-01-05'', done = 0\<rparr>)
     ''2025-11-25'' [Type_title [], Press_salva] example_db = example_db \<and>
   length (lessons example_db) = 3"
proof -
  let ?dlg = "dialog_init \<lparr>ini_title = Some ''   '', ini_course = Some ''Math'',
        ini_day = None, ini_done = None\<rparr> ''2025-11-25''"
  let ?row = "\<lparr>lesson_id = 2, title = ''Geometry'', course = ''Math'', day = ''2025-01-05'', done = 0\<rparr>"
  have h1: "strip (e_title ?dlg) = []" by code_simp
  have d: "?dlg = \<lparr>e_title = ''   '', e_course = ''Math'', e_day = ''2025-11-25'', var_done = 0,
        result = None, destroyed = False\<rparr>"
    by (simp add: dialog_init_def)
  have h2: "blank_title_at_save [] [Type_title ''  '', Type_course ''Math'', Press_salva, Press_annulla]"
    by code_simp
  have h3: "blank_title_at_save (title ?row) [Type_title [], Press_salva]"
    by code_simp
  have n: "length (lessons example_db) = 3" by (simp add: example_db_eval)
  note T = blank_title_rejected[of ?dlg "[Type_title ''  '', Type_course ''Math'', Press_salva, Press_annulla]"
      "''TUTTE''" "''2025-11-25''" "''2025-11-25 10:00:00''" example_db]
  note U = blank_title_rejected[of ?dlg "[Type_title [], Press_salva]" "''TUTTE''" "''2025-11-25''"
      "''2025-11-25 10:00:00''" example_db ?row]
  from T[THEN conjunct1, THEN mp, OF h1] have a: "snd (save ?dlg) = ?dlg" by simp
  have b: "app_add ''TUTTE'' ''2025-11-25'' ''2025-11-25 10:00:00''
     [Type_title ''  '', Type_course ''Math'', Press_salva, Press_annulla] example_db = example_db"
    by (rule T[THEN conjunct2, THEN conjunct1, THEN mp, OF h2])
  have c: "app_edit_selected (Some ?row) ''2025-11-25'' [Type_title [], Press_salva]
      example_db = example_db"
    by (rule U[THEN conjunct2, THEN conjunct2, THEN mp, OF h3])
  have h3': "blank_title_at_save ''Geometry'' [Type_title [], Press_salva]"
    using h3 by simp
  from h1 a[unfolded d] h2 b h3' c n show ?thesis unfolding d by (intro conjI)
qed

section \<open>The stores the program produces\<close>

lemma dropWhile_rev_keeps_head:
  assumes "xs \<noteq> []" "\<not> P (hd xs)"
  shows "\<exists>zs. rev (dropWhile P (rev xs)) = hd xs # zs"
proof -
  obtain x ys where xs: "xs = x # ys" using assms(1) by (cases xs) auto
  have nP: "\<not> P x" using assms(2) xs by simp
  show ?thesis
  proof (cases "\<forall>y\<in>set (rev ys). P y")
    case True
    then have "dropWhile P (rev ys @ [x]) = dropWhile P [x]"
      by (intro dropWhile_append2) auto
    then show ?thesis using nP xs by simp
  next
    case False
    then obtain y where "y \<in> set (rev ys)" "\<not> P y" by blast
    then have "dropWhile P (rev ys @ [x]) = dropWhile P (rev ys) @ [x]"
      by (rule dropWhile_append1)
    then show ?thesis using xs by simp
  qed
qed

lemma strip_idem: "strip (strip s) = strip s"
proof -
  let ?P = py_isspace
  let ?u = "dropWhile ?P s"
  have tail: "dropWhile ?P (rev (strip s)) = rev (strip s)"
    by (simp add: strip_def)
  have head: "dropWhile ?P (strip s) = strip s"
  proof (cases "?u = []")
    case True
    have "strip s = []" unfolding strip_def True by simp
    then show ?thesis by simp
  next
    case False
    then have "\<not> ?P (hd ?u)" by (rule hd_dropWhile)
    from dropWhile_rev_keeps_head[of ?u ?P, OF False this]
    obtain zs where "strip s = hd ?u # zs" by (auto simp: strip_def)
    then show ?thesis using \<open>\<not> ?P (hd ?u)\<close> by simp
  qed
  show ?thesis
    unfolding strip_def[of "strip s"] head tail by simp
qed

lemma validate_iso_date_strip: "validate_iso_date (strip d) = validate_iso_date d"
  by (simp add: validate_iso_date_def strip_idem)

lemma save_result_ok: "result_ok dlg \<Longrightarrow> result_ok (snd (save dlg))"
  by (simp add: save_def Let_def result_ok_def valid_result_def strip_idem validate_iso_date_strip)

lemma dialog_step_result_ok: "result_ok dlg \<Longrightarrow> result_ok (dialog_step today e dlg)"
  by (cases e) (simp_all add: save_result_ok, simp_all add: result_ok_def set_today_def cancel_def)

lemma wait_window_result_ok: "result_ok dlg \<Longrightarrow> result_ok (wait_window today evs dlg)"
  by (induction evs arbitrary: dlg) (simp_all add: dialog_step_result_ok)

lemma dialog_init_result_ok: "result_ok (dialog_init ini today)"
  by (simp add: result_ok_def dialog_init_def)

lemma fold_max_ge: "(a::int) \<le> fold max xs a \<and> (\<forall>x\<in>set xs. x \<le> fold max xs a)"
proof (induction xs arbitrary: a)
  case Nil
  show ?case by simp
next
  case (Cons y ys)
  from Cons.IH[of "max y a"] show ?case by auto
qed

lemma next_id_fresh: "r \<in> set (lessons s) \<Longrightarrow> lesson_id r < next_id s"
  using fold_max_ge[of "seq s" "map lesson_id (lessons s)"] by (fastforce simp: next_id_def)

lemma primary_key_add_lesson: "primary_key s \<Longrightarrow> primary_key (add_lesson t c d dn now s)"
proof -
  assume "primary_key s"
  moreover have "next_id s \<notin> lesson_id ` set (lessons s)"
    using next_id_fresh[of _ s] by fastforce
  ultimately show ?thesis
    by (simp add: primary_key_def add_lesson_def Let_def)
qed

lemma ids_update_lesson:
  "map lesson_id (lessons (update_lesson i t c d dn s)) = map lesson_id (lessons s)"
  by (simp add: update_lesson_def comp_def cong: if_cong)

lemma ids_toggle_done: "map lesson_id (lessons (toggle_done i s)) = map lesson_id (lessons s)"
  by (simp add: toggle_done_def comp_def cong: if_cong)

lemma primary_key_delete_lesson: "primary_key s \<Longrightarrow> primary_key (delete_lesson i s)"
  by (simp add: primary_key_def delete_lesson_def distinct_map_filter)

lemma primary_key_init_schema: "primary_key init_schema"
  by (simp add: primary_key_def init_schema_def)

lemma primary_key_update_lesson: "primary_key (update_lesson i t c d dn s) = primary_key s"
  by (simp add: primary_key_def ids_update_lesson)

lemma primary_key_toggle_done: "primary_key (toggle_done i s) = primary_key s"
  by (simp add: primary_key_def ids_toggle_done)

lemma stored_ok_add_lesson:
  assumes "valid_result p" "list_all stored_ok (lessons s)"
  shows "list_all stored_ok (lessons (add_lesson (res_title p) (res_course p) (res_day p) dn now s))"
  using assms
  by (simp add: add_lesson_def Let_def stored_ok_def valid_result_def validate_iso_date_strip)

lemma stored_ok_update_lesson:
  assumes "valid_result p" "list_all stored_ok (lessons s)"
  shows "list_all stored_ok (lessons (update_lesson i (res_title p) (res_course p) (res_day p) dn s))"
  using assms
  by (auto simp: update_lesson_def list_all_iff stored_ok_def valid_result_def validate_iso_date_strip)

lemma stored_ok_toggle_done:
  "list_all stored_ok (lessons s) \<Longrightarrow> list_all stored_ok (lessons (toggle_done i s))"
  by (auto simp: toggle_done_def list_all_iff stored_ok_def)

lemma stored_ok_delete_lesson:
  "list_all stored_ok (lessons s) \<Longrightarrow> list_all stored_ok (lessons (delete_lesson i s))"
  by (auto simp: delete_lesson_def list_all_iff)

lemma store_inv_app_add: "store_inv s \<Longrightarrow> store_inv (app_add var_day today now evs s)"
proof -
  assume inv: "store_inv s"
  let ?dlg = "wait_window today evs (dialog_init
      \<lparr>ini_title = None, ini_course = None,
       ini_day = Some (if validate_iso_date var_day then var_day else today),
       ini_done = None\<rparr> today)"
  have ok: "result_ok ?dlg" by (intro wait_window_result_ok dialog_init_result_ok)
  show ?thesis
  proof (cases "result ?dlg")
    case None
    then show ?thesis using inv by (simp add: app_add_def Let_def)
  next
    case (Some p)
    then have "valid_result p" using ok by (simp add: result_ok_def)
    then show ?thesis using inv Some
      by (simp add: app_add_def Let_def store_inv_def primary_key_add_lesson stored_ok_add_lesson)
  qed
qed

lemma store_inv_app_edit_selected:
  "store_inv s \<Longrightarrow> store_inv (app_edit_selected sel today evs s)"
proof (cases sel)
  case None
  assume "store_inv s"
  then show ?thesis using None by (simp add: app_edit_selected_def)
next
  case (Some row)
  assume inv: "store_inv s"
  let ?dlg = "wait_window today evs (dialog_init
      \<lparr>ini_title = Some (title row), ini_course = Some (course row),
       ini_day = Some (day row), ini_done = Some (done row)\<rparr> today)"
  have ok: "result_ok ?dlg" by (intro wait_window_result_ok dialog_init_result_ok)
  show ?thesis
  proof (cases "result ?dlg")
    case None
    then show ?thesis using inv Some by (simp add: app_edit_selected_def Let_def)
  next
    case (Some p)
    then have "valid_result p" using ok by (simp add: result_ok_def)
    then show ?thesis using inv Some \<open>sel = Some row\<close>
      by (simp add: app_edit_selected_def Let_def store_inv_def primary_key_def ids_update_lesson
          stored_ok_update_lesson)
  qed
qed

lemma store_inv_app_delete_selected:
  "store_inv s \<Longrightarrow> store_inv (app_delete_selected sel yes s)"
  by (cases sel) (simp_all add: app_delete_selected_def store_inv_def primary_key_delete_lesson
      stored_ok_delete_lesson)

lemma store_inv_app_toggle_done_selected:
  "store_inv s \<Longrightarrow> store_inv (app_toggle_done_selected sel s)"
  by (cases sel) (simp_all add: app_toggle_done_selected_def store_inv_def primary_key_def
      ids_toggle_done stored_ok_toggle_done)

text \<open>
  What does hold in every store the program produces: ids are unique, no title and
  no course is empty, and every day is one that \<open>validate_iso_date\<close> accepts.
\<close>

lemma reachable_store_inv: "reachable s \<Longrightarrow> store_inv s"
proof (induction rule: reachable.induct)
  case start
  show ?case by (simp add: store_inv_def primary_key_def init_schema_def)
next
  case (add s var_day today now evs)
  then show ?case by (simp add: store_inv_app_add)
next
  case (edit s sel today evs)
  then show ?case by (simp add: store_inv_app_edit_selected)
next
  case (delete s sel askyesno)
  then show ?case by (simp add: store_inv_app_delete_selected)
next
  case (toggle s sel)
  then show ?case by (simp add: store_inv_app_toggle_done_selected)
qed

text \<open>
  C4, the day: \<open>validate_iso_date\<close> accepts \<open>2025-1-5\<close>, since \<open>strptime\<close> takes a
  month and a day without the leading zero, and \<open>_save\<close> hands the text on as it
  was typed. The store after this one add is reachable and holds a day that is not
  of the form YYYY-MM-DD.
\<close>

theorem lenient_day_is_stored:
  "reachable lenient_day_db \<and> map day (lessons lenient_day_db) = [''2025-1-5''] \<and>
   validate_iso_date ''2025-1-5'' \<and> \<not> iso_date_pattern ''2025-1-5''"
proof (intro conjI)
  show "reachable lenient_day_db"
    unfolding lenient_day_db_def by (intro reachable.add reachable.start)
  show "map day (lessons lenient_day_db) = [''2025-1-5'']"
    by (simp add: lenient_day_db_eval)
  show "validate_iso_date ''2025-1-5''" by code_simp
  show "\<not> iso_date_pattern ''2025-1-5''" by code_simp
qed

end
